theory Spec2Isabelle
  imports Complex_Main
begin

section \<open>JavaScript values and the platform\<close>

text \<open>
  The messages of \<^verbatim>\<open>src/app.js\<close> are object literals. An object is a list of
  (key, value) pairs in insertion order, as the engine keeps it; \<open>JUndefined\<close> is the
  value of a missing argument or field.
\<close>

datatype jsval =
    JUndefined
  | JNull
  | JBool bool
  | JNum real
  | JStr string
  | JArr "jsval list"
  | JObj "(string \<times> jsval) list"

text \<open>Reading a property: \<open>undefined\<close> when the key is absent or the value is no object.\<close>

fun get_prop :: "jsval \<Rightarrow> string \<Rightarrow> jsval" where
  "get_prop (JObj kvs) k = (case map_of kvs k of Some v \<Rightarrow> v | None \<Rightarrow> JUndefined)"
| "get_prop _ k = JUndefined"


fun keys_of :: "jsval \<Rightarrow> string list" where
  "keys_of (JObj kvs) = map fst kvs"
| "keys_of _ = []"

subsection \<open>The built-in Map\<close>

text \<open>
  \<^verbatim>\<open>this.connections\<close> and \<^verbatim>\<open>this.bluetoothConnections\<close> are
  \<^verbatim>\<open>Map\<close>s: iteration is in insertion order, \<^verbatim>\<open>set\<close> on a present key
  replaces the value in place, \<^verbatim>\<open>delete\<close> removes the key.
\<close>

type_synonym ('k, 'v) jsmap = "('k \<times> 'v) list"

fun map_set :: "'k \<Rightarrow> 'v \<Rightarrow> ('k, 'v) jsmap \<Rightarrow> ('k, 'v) jsmap" where
  "map_set k v [] = [(k, v)]"
| "map_set k v ((k', v') # m) = (if k' = k then (k, v) # m else (k', v') # map_set k v m)"

definition map_delete :: "'k \<Rightarrow> ('k, 'v) jsmap \<Rightarrow> ('k, 'v) jsmap" where
  "map_delete k m = filter (\<lambda>e. fst e \<noteq> k) m"

definition map_get :: "('k, 'v) jsmap \<Rightarrow> 'k \<Rightarrow> 'v option" where
  "map_get m k = map_of m k"

definition map_size :: "('k, 'v) jsmap \<Rightarrow> nat" where
  "map_size m = length m"

subsection \<open>Handles and the environment\<close>

text \<open>
  A PeerJS data connection (\<^verbatim>\<open>conn\<close>): \<open>conn_id\<close> tells two connection objects
  apart, \<open>peer\<close> is \<^verbatim>\<open>conn.peer\<close>, \<open>metadata\<close> is \<^verbatim>\<open>conn.metadata\<close>.
\<close>

record conn =
  conn_id :: nat
  peer :: string
  metadata :: jsval

text \<open>The value stored by \<^verbatim>\<open>this.connections.set(conn.peer, {...})\<close>.\<close>

record conn_entry =
  connection :: conn
  ctype :: string
  cmetadata :: jsval

text \<open>A Web Bluetooth device: \<^verbatim>\<open>device.id\<close> and \<^verbatim>\<open>device.name\<close>.\<close>

record device =
  dev_id :: string
  dev_name :: "string option"

text \<open>
  The value stored by \<^verbatim>\<open>this.bluetoothConnections.set(device.id, {...})\<close>. The
  characteristic is named by a handle; the server and service objects are stored by
  the source and never read again.
\<close>

record bt_entry =
  bt_device :: device
  characteristic :: string
  bt_type :: string

datatype geo = NoGeolocation | Position real real real | PositionError

text \<open>
  What the GATT server of a device answers during \<^verbatim>\<open>connectBluetoothDevice\<close>:
  \<^verbatim>\<open>device.gatt.connect()\<close> rejects; or the emergency service is there and
  \<^verbatim>\<open>getCharacteristic\<close> rejects, or gives a characteristic whose
  \<^verbatim>\<open>startNotifications\<close> resolves or not; or the service is absent and
  \<^verbatim>\<open>getPrimaryServices\<close> rejects, or the services are listed in order, each
  with its characteristics (\<open>None\<close> when \<^verbatim>\<open>getCharacteristics\<close> rejects), each
  characteristic with its \<^verbatim>\<open>write\<close>, \<^verbatim>\<open>writeWithoutResponse\<close> and
  \<^verbatim>\<open>notify\<close> properties and whether its \<^verbatim>\<open>startNotifications\<close> resolves.
\<close>

record char_props =
  cp_handle :: string
  cp_write :: bool
  cp_writeWithoutResponse :: bool
  cp_notify :: bool
  cp_notifications_ok :: bool

datatype gatt_setup =
    ConnectRejected
  | ServiceNoCharacteristic
  | ServiceCharacteristic string bool
  | NoServiceListRejected
  | NoServiceServices "char_props list option list"

text \<open>
  What the platform decides: whether \<^verbatim>\<open>conn.send\<close> throws and what
  \<^verbatim>\<open>conn.open\<close> reads (by \<open>conn_id\<close>); whether the \<open>k\<close>-th
  \<^verbatim>\<open>writeValue\<close> of a message on a characteristic resolves and how many
  milliseconds it takes; how late the \<open>k\<close>-th 50 ms timer fires (a timer never fires
  early); \<open>encode\<close> is \<^verbatim>\<open>new TextEncoder().encode(JSON.stringify(data))\<close>, a byte
  list; \<open>geolocation\<close> is the outcome of the position request and \<open>geo_ms\<close> the
  time it takes; \<open>message_id\<close> is what \<^verbatim>\<open>generateMessageId\<close> returns at a given
  time (it draws on \<^verbatim>\<open>Date.now()\<close> and \<^verbatim>\<open>Math.random()\<close>); \<open>gatt\<close> is
  the GATT server of a device, by \<^verbatim>\<open>device.id\<close>, and \<open>error_message\<close> the
  \<^verbatim>\<open>error.message\<close> of a rejection; \<open>bluetooth_supported\<close> tells whether
  \<^verbatim>\<open>navigator.bluetooth\<close> exists; \<open>new_peer\<close> is the id of the
  \<^verbatim>\<open>Peer\<close> that \<^verbatim>\<open>initializePeer\<close> creates, \<open>None\<close> when the constructor
  throws.
\<close>

record world =
  send_throws :: "nat \<Rightarrow> bool"
  conn_open :: "nat \<Rightarrow> bool"
  write_ok :: "string \<Rightarrow> nat \<Rightarrow> bool"
  write_ms :: "string \<Rightarrow> nat \<Rightarrow> nat"
  timer_lag :: "nat \<Rightarrow> nat"
  encode :: "jsval \<Rightarrow> string"
  geolocation :: geo
  geo_ms :: nat
  message_id :: "nat \<Rightarrow> string"
  gatt :: "string \<Rightarrow> gatt_setup"
  error_message :: string
  bluetooth_supported :: bool
  new_peer :: "string option"

section \<open>Segmentation on the Bluetooth transport\<close>

text \<open>
  The outcome of the promise of \<^verbatim>\<open>writeBluetoothMessage\<close>: the chunks whose
  \<^verbatim>\<open>writeValue\<close> resolved, each with the time the write started; the time the
  promise settled; whether it rejected (the \<^verbatim>\<open>catch\<close> rethrows).
\<close>

record write_result =
  frames :: "(nat \<times> string) list"
  settled :: nat
  thrown :: bool

definition maxChunkSize :: nat where
  "maxChunkSize = 20"

text \<open>
  \<^verbatim>\<open>for (let i = 0; i < encodedMessage.length; i += maxChunkSize)\<close>: \<open>i\<close> is the
  offset, \<open>k\<close> counts the writes, \<open>t\<close> is the clock. A rejected write leaves the loop.
\<close>

function write_chunks :: "world \<Rightarrow> string \<Rightarrow> string \<Rightarrow> nat \<Rightarrow> nat \<Rightarrow> nat \<Rightarrow> write_result" where
  "write_chunks w ch encodedMessage i k t =
     (if i < length encodedMessage then
        (let chunk = take maxChunkSize (drop i encodedMessage) in
         if write_ok w ch k then
           (let r = write_chunks w ch encodedMessage (i + maxChunkSize) (Suc k)
                      (t + write_ms w ch k + 50 + timer_lag w k)
            in r\<lparr>frames := (t, chunk) # frames r\<rparr>)
         else \<lparr>frames = [], settled = t + write_ms w ch k, thrown = True\<rparr>)
      else \<lparr>frames = [], settled = t, thrown = False\<rparr>)"
  by pat_completeness auto
termination
  by (relation "measure (\<lambda>(w, ch, m, i, k, t). length m - i)") (auto simp: maxChunkSize_def)

declare write_chunks.simps [simp del]

definition writeBluetoothMessage :: "world \<Rightarrow> string \<Rightarrow> nat \<Rightarrow> jsval \<Rightarrow> write_result" where
  "writeBluetoothMessage w ch t data =
     (let encodedMessage = encode w data in
      if length encodedMessage \<le> maxChunkSize then
        (if write_ok w ch 0
         then \<lparr>frames = [(t, encodedMessage)], settled = t + write_ms w ch 0, thrown = False\<rparr>
         else \<lparr>frames = [], settled = t + write_ms w ch 0, thrown = True\<rparr>)
      else write_chunks w ch encodedMessage 0 0 t)"


section \<open>The chat session\<close>

text \<open>
  What is shown in the \<^verbatim>\<open>#messages\<close> container: a bubble of
  \<^verbatim>\<open>displayMessage\<close>, of \<^verbatim>\<open>displayEmergencyAlert\<close> or of
  \<^verbatim>\<open>displayFileMessage\<close>, with the \<^verbatim>\<open>isSent\<close> flag.
\<close>

datatype display = MessageBubble jsval bool | AlertBubble jsval bool | FileBubble jsval bool

text \<open>
  The fields of \<^verbatim>\<open>EmergencyMeshChat\<close> that the operations below read or write,
  the two inputs of the page they read, and what they do to the outside, in order:
  \<open>toasts\<close> are the calls of \<^verbatim>\<open>showToast\<close> (message, type), \<open>statuses\<close> those of
  \<^verbatim>\<open>updateConnectionStatus\<close>, \<open>messages\<close> the bubbles appended,
  \<open>send_calls\<close> the calls of \<^verbatim>\<open>conn.send\<close> (connection, object, whether the
  call threw) and \<open>bt_calls\<close> the calls of \<^verbatim>\<open>writeBluetoothMessage\<close>
  (characteristic, object, outcome). \<open>clock\<close> is \<^verbatim>\<open>Date.now()\<close>; only awaited
  work lets it advance. \<^verbatim>\<open>updateActiveConnections\<close> redraws the list of the two
  registries and keeps no state of its own.
\<close>

record chat =
  connections :: "(string, conn_entry) jsmap"
  bluetoothConnections :: "(string, bt_entry) jsmap"
  deviceName :: string
  autoConnect :: bool
  connectionPriority :: string
  peer_id :: "string option"
  message_input :: string
  remote_peer_id_input :: string
  toasts :: "(string \<times> string) list"
  statuses :: "(string \<times> string) list"
  messages :: "display list"
  send_calls :: "(nat \<times> jsval \<times> bool) list"
  bt_calls :: "(string \<times> jsval \<times> write_result) list"
  clock :: nat

text \<open>
  An operation returns, or throws out of its handler; the state reached is kept either
  way.
\<close>

datatype result = Returned chat | Threw chat

fun state_of :: "result \<Rightarrow> chat" where
  "state_of (Returned s) = s"
| "state_of (Threw s) = s"

definition showToast :: "string \<Rightarrow> string \<Rightarrow> chat \<Rightarrow> chat" where
  "showToast message type s = s\<lparr>toasts := toasts s @ [(message, type)]\<rparr>"

definition updateConnectionStatus :: "string \<Rightarrow> string \<Rightarrow> chat \<Rightarrow> chat" where
  "updateConnectionStatus message type s = s\<lparr>statuses := statuses s @ [(message, type)]\<rparr>"

definition displayMessage :: "jsval \<Rightarrow> bool \<Rightarrow> chat \<Rightarrow> chat" where
  "displayMessage messageData isSent s = s\<lparr>messages := messages s @ [MessageBubble messageData isSent]\<rparr>"

definition displayEmergencyAlert :: "jsval \<Rightarrow> bool \<Rightarrow> chat \<Rightarrow> chat" where
  "displayEmergencyAlert alertData isSent s = s\<lparr>messages := messages s @ [AlertBubble alertData isSent]\<rparr>"

definition displayFileMessage :: "jsval \<Rightarrow> bool \<Rightarrow> chat \<Rightarrow> chat" where
  "displayFileMessage fileData isSent s = s\<lparr>messages := messages s @ [FileBubble fileData isSent]\<rparr>"

definition getTotalConnections :: "chat \<Rightarrow> nat" where
  "getTotalConnections s = map_size (connections s) + map_size (bluetoothConnections s)"

text \<open>A non-negative integer in a template literal: its decimal digits.\<close>

fun show_nat :: "nat \<Rightarrow> string" where
  "show_nat n = (if n < 10 then [''0123456789'' ! n]
                 else show_nat (n div 10) @ [''0123456789'' ! (n mod 10)])"

declare show_nat.simps [simp del]



subsection \<open>Sending on one connection\<close>

text \<open>
  \<^verbatim>\<open>try { connData.connection.send(data) } catch (error) { console.error(...) }\<close>:
  the call is made; a throw is caught and logged.
\<close>

definition try_send :: "world \<Rightarrow> jsval \<Rightarrow> chat \<Rightarrow> conn_entry \<Rightarrow> chat" where
  "try_send w data s connData =
     s\<lparr>send_calls := send_calls s @
          [(conn_id (connection connData), data, send_throws w (conn_id (connection connData)))]\<rparr>"

text \<open>
  \<^verbatim>\<open>try { await this.writeBluetoothMessage(connData.characteristic, data) } catch ...\<close>:
  the clock moves to the time the promise settled; a rejection is caught and logged.
\<close>

definition try_write :: "world \<Rightarrow> jsval \<Rightarrow> chat \<Rightarrow> bt_entry \<Rightarrow> chat" where
  "try_write w data s connData =
     (let r = writeBluetoothMessage w (characteristic connData) (clock s) data
      in s\<lparr>bt_calls := bt_calls s @ [(characteristic connData, data, r)], clock := settled r\<rparr>)"

text \<open>
  \<^verbatim>\<open>this.connections.forEach(...)\<close>, then
  \<^verbatim>\<open>for (const [deviceId, connData] of this.bluetoothConnections)\<close>.
\<close>

definition send_to_all :: "world \<Rightarrow> jsval \<Rightarrow> jsval \<Rightarrow> chat \<Rightarrow> chat" where
  "send_to_all w direct_data bluetooth_data s =
     foldl (try_write w bluetooth_data)
       (foldl (try_send w direct_data) s (map snd (connections s)))
       (map snd (bluetoothConnections s))"

subsection \<open>sendMessage\<close>

definition messageData :: "world \<Rightarrow> chat \<Rightarrow> string \<Rightarrow> jsval" where
  "messageData w s message = JObj
     [(''type'', JStr ''message''),
      (''content'', JStr message),
      (''sender'', JStr (deviceName s)),
      (''timestamp'', JNum (real (clock s))),
      (''id'', JStr (message_id w (clock s)))]"


subsection \<open>sendEmergencyAlert\<close>

definition null_location :: jsval where
  "null_location = JObj [(''latitude'', JNull), (''longitude'', JNull), (''accuracy'', JNull)]"

text \<open>
  \<^verbatim>\<open>getCurrentLocation\<close> always resolves: without \<^verbatim>\<open>navigator.geolocation\<close>
  at once, otherwise from the success or the error callback of
  \<^verbatim>\<open>getCurrentPosition\<close> (which is given a timeout of 10 s).
\<close>

definition getCurrentLocation :: "world \<Rightarrow> jsval" where
  "getCurrentLocation w =
     (case geolocation w of
        NoGeolocation \<Rightarrow> null_location
      | Position la lo ac \<Rightarrow>
          JObj [(''latitude'', JNum la), (''longitude'', JNum lo), (''accuracy'', JNum ac)]
      | PositionError \<Rightarrow> null_location)"

definition location_wait :: "world \<Rightarrow> nat" where
  "location_wait w = (case geolocation w of NoGeolocation \<Rightarrow> 0 | _ \<Rightarrow> geo_ms w)"

text \<open>
  The object literal of \<^verbatim>\<open>sendEmergencyAlert\<close>: the timestamp is read before the
  position is awaited, the id is generated after it.
\<close>

definition emergencyData :: "world \<Rightarrow> chat \<Rightarrow> jsval" where
  "emergencyData w s = JObj
     [(''type'', JStr ''emergency''),
      (''content'', JStr ''EMERGENCY ALERT: Assistance needed at this location''),
      (''sender'', JStr (deviceName s)),
      (''timestamp'', JNum (real (clock s))),
      (''location'', getCurrentLocation w),
      (''id'', JStr (message_id w (clock s + location_wait w)))]"

definition sendEmergencyAlert :: "world \<Rightarrow> chat \<Rightarrow> result" where
  "sendEmergencyAlert w s =
     (let totalConnections = getTotalConnections s in
      if totalConnections = 0 then
        Returned (showToast ''No devices connected for emergency alert'' ''warning'' s)
      else
        let s0 = s\<lparr>clock := clock s + location_wait w\<rparr>;
            s1 = send_to_all w (emergencyData w s) (emergencyData w s) s0;
            s2 = displayEmergencyAlert (emergencyData w s) True s1
        in Returned (showToast (''Emergency alert sent to '' @ show_nat totalConnections @ '' device(s)'')
                       ''warning'' s2))"

subsection \<open>sendFile\<close>





section \<open>Connections\<close>

subsection \<open>The direct transport: setupConnection\<close>

text \<open>
  \<^verbatim>\<open>x || d\<close> for a name: the default when the name is missing or empty. A name that
  is present is a string.
\<close>

definition name_or :: "string option \<Rightarrow> string \<Rightarrow> string" where
  "name_or n d = (case n of None \<Rightarrow> d | Some x \<Rightarrow> if x = [] then d else x)"

definition metadata_deviceName :: "jsval \<Rightarrow> string option" where
  "metadata_deviceName md = (case get_prop md ''deviceName'' of JStr n \<Rightarrow> Some n | _ \<Rightarrow> None)"

text \<open>\<^verbatim>\<open>sendHandshake\<close>: the call of \<^verbatim>\<open>conn.send\<close> is not guarded.\<close>

definition handshake :: "chat \<Rightarrow> jsval" where
  "handshake s = JObj
     [(''type'', JStr ''handshake''),
      (''deviceName'', JStr (deviceName s)),
      (''timestamp'', JNum (real (clock s))),
      (''peerId'', JStr (case peer_id s of Some i \<Rightarrow> i | None \<Rightarrow> ''bluetooth-only'')),
      (''connectionType'', JStr ''webrtc'')]"

definition sendHandshake :: "world \<Rightarrow> conn \<Rightarrow> chat \<Rightarrow> result" where
  "sendHandshake w c s =
     (let s' = s\<lparr>send_calls := send_calls s @ [(conn_id c, handshake s, send_throws w (conn_id c))]\<rparr>
      in if send_throws w (conn_id c) then Threw s' else Returned s')"

text \<open>\<^verbatim>\<open>handleIncomingMessage\<close>, with \<^verbatim>\<open>handleFileMessage\<close> for a file.\<close>

definition handleIncomingMessage :: "jsval \<Rightarrow> chat \<Rightarrow> chat" where
  "handleIncomingMessage data s =
     (let t = get_prop data ''type'' in
      if t = JStr ''handshake'' \<or> t = JStr ''bluetooth-handshake'' then s
      else if t = JStr ''message'' then displayMessage data False s
      else if t = JStr ''emergency'' then displayEmergencyAlert data False s
      else if t = JStr ''file'' then displayFileMessage data False s
      else s)"

text \<open>
  The events of a data connection and the handlers \<^verbatim>\<open>setupConnection(conn, isIncoming)\<close>
  installs for them; \<open>isIncoming\<close> only changes what is logged.
\<close>

datatype conn_event = Open | Data jsval | Close | Error

definition setupConnection :: "world \<Rightarrow> conn \<Rightarrow> bool \<Rightarrow> conn_event \<Rightarrow> chat \<Rightarrow> result" where
  "setupConnection w c isIncoming ev s =
     (case ev of
        Open \<Rightarrow>
          (let s1 = s\<lparr>connections := map_set (peer c)
                        \<lparr>connection = c, ctype = ''webrtc'', cmetadata = metadata c\<rparr> (connections s)\<rparr>;
               s2 = updateConnectionStatus
                      (''Connected to '' @ show_nat (getTotalConnections s1) @ '' device(s)'') ''success'' s1;
               remoteName = name_or (metadata_deviceName (metadata c)) ''Unknown Device'';
               s3 = showToast (''WebRTC connected to '' @ remoteName) ''success'' s2
           in case sendHandshake w c s3 of
                Threw s4 \<Rightarrow> Threw s4
              | Returned s4 \<Rightarrow> Returned (s4\<lparr>remote_peer_id_input := []\<rparr>))
      | Data data \<Rightarrow> Returned (handleIncomingMessage data s)
      | Close \<Rightarrow>
          (let s1 = s\<lparr>connections := map_delete (peer c) (connections s)\<rparr>;
               totalConnections = getTotalConnections s1;
               s2 = (if totalConnections = 0
                     then updateConnectionStatus ''No active connections'' ''warning'' s1
                     else updateConnectionStatus
                            (''Connected to '' @ show_nat totalConnections @ '' device(s)'') ''success'' s1)
           in Returned (showToast ''WebRTC device disconnected'' ''warning'' s2))
      | Error \<Rightarrow>
          (let s1 = s\<lparr>connections := map_delete (peer c) (connections s)\<rparr>
           in Returned (showToast ''WebRTC connection error'' ''error'' s1)))"

subsection \<open>The Bluetooth transport: connectBluetoothDevice\<close>

definition bluetooth_handshake :: "device \<Rightarrow> chat \<Rightarrow> jsval" where
  "bluetooth_handshake dev s = JObj
     [(''type'', JStr ''bluetooth-handshake''),
      (''deviceName'', JStr (deviceName s)),
      (''timestamp'', JNum (real (clock s))),
      (''deviceId'', JStr (dev_id dev)),
      (''capabilities'', JArr [JStr ''messaging'', JStr ''emergency'', JStr ''file-transfer''])]"

text \<open>
  The two loops of \<^verbatim>\<open>setupGenericBluetoothConnection\<close>: the first characteristic
  with \<^verbatim>\<open>write\<close> or \<^verbatim>\<open>writeWithoutResponse\<close>, in the order of the services;
  \<open>None\<close> when a \<^verbatim>\<open>getCharacteristics\<close> rejects before one is found or when there
  is none (\<^verbatim>\<open>throw new Error('No suitable characteristics found')\<close>).
\<close>

fun find_writable :: "char_props list option list \<Rightarrow> char_props option" where
  "find_writable [] = None"
| "find_writable (None # services) = None"
| "find_writable (Some characteristics # services) =
     (case find (\<lambda>c. cp_write c \<or> cp_writeWithoutResponse c) characteristics of
        Some c \<Rightarrow> Some c
      | None \<Rightarrow> find_writable services)"

definition setupGenericBluetoothConnection :: "world \<Rightarrow> device \<Rightarrow> chat \<Rightarrow> chat" where
  "setupGenericBluetoothConnection w dev s =
     (let failed = showToast ''Could not establish Bluetooth communication'' ''error'' in
      case gatt w (dev_id dev) of
        NoServiceServices services \<Rightarrow>
          (case find_writable services of
             None \<Rightarrow> failed s
           | Some c \<Rightarrow>
               let s1 = s\<lparr>bluetoothConnections := map_set (dev_id dev)
                            \<lparr>bt_device = dev, characteristic = cp_handle c, bt_type = ''bluetooth-generic''\<rparr>
                            (bluetoothConnections s)\<rparr>
               in if cp_notify c \<and> \<not> cp_notifications_ok c then failed s1
                  else showToast ''Generic Bluetooth connection established'' ''success'' s1)
      | _ \<Rightarrow> failed s)"

definition connectBluetoothDevice :: "world \<Rightarrow> device \<Rightarrow> chat \<Rightarrow> chat" where
  "connectBluetoothDevice w dev s =
     (let failed = showToast (''Bluetooth connection failed: '' @ error_message w) ''error'';
          s0 = showToast (''Connecting to '' @ name_or (dev_name dev) ''Unknown Device'' @ ''...'') ''info'' s
      in case gatt w (dev_id dev) of
           ConnectRejected \<Rightarrow> failed s0
         | ServiceNoCharacteristic \<Rightarrow> failed s0
         | ServiceCharacteristic messageChar notifications_ok \<Rightarrow>
             if \<not> notifications_ok then failed s0
             else
               let s1 = s0\<lparr>bluetoothConnections := map_set (dev_id dev)
                             \<lparr>bt_device = dev, characteristic = messageChar, bt_type = ''bluetooth''\<rparr>
                             (bluetoothConnections s0)\<rparr>;
                   s2 = showToast (''Connected to '' @ name_or (dev_name dev) ''Device'' @ '' via Bluetooth'')
                          ''success'' s1;
                   s3 = updateConnectionStatus
                          (''Bluetooth connected to '' @ name_or (dev_name dev) ''Device'') ''success'' s2;
                   r = writeBluetoothMessage w messageChar (clock s3) (bluetooth_handshake dev s3);
                   s4 = s3\<lparr>bt_calls := bt_calls s3 @ [(messageChar, bluetooth_handshake dev s3, r)],
                           clock := settled r\<rparr>
               in if thrown r then failed s4 else s4
         | NoServiceListRejected \<Rightarrow> setupGenericBluetoothConnection w dev s0
         | NoServiceServices services \<Rightarrow> setupGenericBluetoothConnection w dev s0)"


subsection \<open>The quality probe\<close>

text \<open>
  One run of the interval callback of \<^verbatim>\<open>monitorConnectionQuality\<close>: every entry of
  \<^verbatim>\<open>this.connections\<close> is visited once; deleting the entry being visited leaves the
  others to be visited.
\<close>

definition ping :: "chat \<Rightarrow> jsval" where
  "ping s = JObj [(''type'', JStr ''ping''), (''timestamp'', JNum (real (clock s)))]"

definition probe :: "world \<Rightarrow> chat \<Rightarrow> string \<times> conn_entry \<Rightarrow> chat" where
  "probe w s e =
     (case e of (peerId, connData) \<Rightarrow>
        if conn_open w (conn_id (connection connData)) then
          (if send_throws w (conn_id (connection connData)) then
             s\<lparr>send_calls := send_calls s @ [(conn_id (connection connData), ping s, True)],
               connections := map_delete peerId (connections s)\<rparr>
           else s\<lparr>send_calls := send_calls s @ [(conn_id (connection connData), ping s, False)]\<rparr>)
        else s)"

definition quality_check :: "world \<Rightarrow> chat \<Rightarrow> chat" where
  "quality_check w s = foldl (probe w) s (connections s)"

subsection \<open>Transport events\<close>






subsection \<open>What the events say about a transport\<close>







section \<open>Start-up and timers\<close>














section \<open>The persistence server\<close>






section \<open>A platform for the examples\<close>

text \<open>
  A stand-in for the encoder: a string is its characters between double quotes,
  \<open>undefined\<close> is the empty byte list (\<^verbatim>\<open>JSON.stringify(undefined)\<close> is
  \<open>undefined\<close>, which \<^verbatim>\<open>TextEncoder.encode\<close> takes as its default, the empty
  string), and every other value is two bytes.
\<close>

fun example_encode :: "jsval \<Rightarrow> string" where
  "example_encode JUndefined = []"
| "example_encode (JStr x) = CHR 0x22 # x @ [CHR 0x22]"
| "example_encode v = ''{}''"

text \<open>
  Nothing fails, every connection is open, a write takes 3 ms, timers are on time,
  the position is refused, and the GATT server of every device has the emergency
  service with the message characteristic \<open>''msg''\<close>.
\<close>

definition calm :: world where
  "calm = \<lparr>send_throws = (\<lambda>c. False), conn_open = (\<lambda>c. True),
            write_ok = (\<lambda>ch k. True), write_ms = (\<lambda>ch k. 3), timer_lag = (\<lambda>k. 0),
            encode = example_encode, geolocation = PositionError, geo_ms = 40,
            message_id = (\<lambda>t. ''m'' @ show_nat t),
            gatt = (\<lambda>d. ServiceCharacteristic ''msg'' True),
            error_message = ''GATT operation failed'',
            bluetooth_supported = True, new_peer = Some ''emergency-a-1''\<rparr>"

text \<open>
  The same platform where the connection with id 1 throws on \<^verbatim>\<open>send\<close> and every
  write on the characteristic \<open>''far''\<close> is rejected.
\<close>

definition stormy :: world where
  "stormy = calm\<lparr>send_throws := (\<lambda>c. c = 1), write_ok := (\<lambda>ch k. ch \<noteq> ''far'')\<rparr>"

text \<open>
  A session with two direct connections and two Bluetooth connections at time 1000,
  with a message typed in.
\<close>

definition busy :: chat where
  "busy = \<lparr>connections =
             [(''peer-a'', \<lparr>connection = \<lparr>conn_id = 1, peer = ''peer-a'', metadata = JUndefined\<rparr>,
                           ctype = ''webrtc'', cmetadata = JUndefined\<rparr>),
              (''peer-b'', \<lparr>connection = \<lparr>conn_id = 2, peer = ''peer-b'', metadata = JUndefined\<rparr>,
                           ctype = ''webrtc'', cmetadata = JUndefined\<rparr>)],
           bluetoothConnections =
             [(''dev-1'', \<lparr>bt_device = \<lparr>dev_id = ''dev-1'', dev_name = Some ''Radio 1''\<rparr>,
                          characteristic = ''far'', bt_type = ''bluetooth''\<rparr>),
              (''dev-2'', \<lparr>bt_device = \<lparr>dev_id = ''dev-2'', dev_name = None\<rparr>,
                          characteristic = ''msg'', bt_type = ''bluetooth-generic''\<rparr>)],
           deviceName = ''Emergency Device'', autoConnect = True,
           connectionPriority = ''webrtc'', peer_id = Some ''emergency-a-1'',
           message_input = '' need help '', remote_peer_id_input = [],
           toasts = [], statuses = [], messages = [], send_calls = [], bt_calls = [],
           clock = 1000\<rparr>"

text \<open>The same session with no connection at all.\<close>

definition alone :: chat where
  "alone = busy\<lparr>connections := [], bluetoothConnections := []\<rparr>"




text \<open>
  The platform where no GATT server has the emergency service and each offers one
  characteristic, \<open>''tx''\<close>, that can be written without response.
\<close>

definition generic_only :: world where
  "generic_only = calm\<lparr>gatt := (\<lambda>d. NoServiceServices
     [Some [\<lparr>cp_handle = ''tx'', cp_write = False, cp_writeWithoutResponse = True,
             cp_notify = False, cp_notifications_ok = False\<rparr>]])\<rparr>"


definition conn_a3 :: conn where
  "conn_a3 = \<lparr>conn_id = 3, peer = ''peer-a'',
              metadata = JObj [(''deviceName'', JStr ''Medic 3'')]\<rparr>"

definition conn_b2 :: conn where
  "conn_b2 = \<lparr>conn_id = 2, peer = ''peer-b'', metadata = JUndefined\<rparr>"

definition radio_1 :: device where
  "radio_1 = \<lparr>dev_id = ''dev-1'', dev_name = Some ''Radio 1''\<rparr>"


section \<open>The registries under the handlers\<close>


lemma map_get_map_delete:
  "map_get (map_delete p m) k = (if k = p then None else map_get m k)"
  by (induction m) (auto simp: map_get_def map_delete_def)






lemma generic_registry:
  "bluetoothConnections (setupGenericBluetoothConnection w dev s) =
     (case gatt w (dev_id dev) of
        NoServiceServices services \<Rightarrow>
          (case find_writable services of
             None \<Rightarrow> bluetoothConnections s
           | Some c \<Rightarrow> map_set (dev_id dev)
               \<lparr>bt_device = dev, characteristic = cp_handle c, bt_type = ''bluetooth-generic''\<rparr>
               (bluetoothConnections s))
      | _ \<Rightarrow> bluetoothConnections s)"
  by (simp add: setupGenericBluetoothConnection_def Let_def showToast_def
        split: gatt_setup.splits option.splits)

lemma connect_bluetooth_registry:
  "bluetoothConnections (connectBluetoothDevice w dev s) =
     (case gatt w (dev_id dev) of
        ServiceCharacteristic messageChar notifications_ok \<Rightarrow>
          if notifications_ok
          then map_set (dev_id dev)
                 \<lparr>bt_device = dev, characteristic = messageChar, bt_type = ''bluetooth''\<rparr>
                 (bluetoothConnections s)
          else bluetoothConnections s
      | NoServiceServices services \<Rightarrow>
          (case find_writable services of
             None \<Rightarrow> bluetoothConnections s
           | Some c \<Rightarrow> map_set (dev_id dev)
               \<lparr>bt_device = dev, characteristic = cp_handle c, bt_type = ''bluetooth-generic''\<rparr>
               (bluetoothConnections s))
      | _ \<Rightarrow> bluetoothConnections s)"
  by (simp add: connectBluetoothDevice_def generic_registry Let_def showToast_def
        updateConnectionStatus_def split: gatt_setup.splits option.splits)





section \<open>Segmentation: the frames of a Bluetooth write\<close>


















section \<open>Fan-out: one message to every connection\<close>

lemma foldl_try_send:
  "foldl (try_send w d) s es =
     s\<lparr>send_calls := send_calls s @
          map (\<lambda>e. (conn_id (connection e), d, send_throws w (conn_id (connection e)))) es\<rparr>"
  by (induction es arbitrary: s) (simp_all add: try_send_def)

lemma foldl_try_write:
  "\<exists>calls t. foldl (try_write w d) s es = s\<lparr>bt_calls := bt_calls s @ calls, clock := t\<rparr>
     \<and> map (\<lambda>c. (fst c, fst (snd c))) calls = map (\<lambda>e. (characteristic e, d)) es"
proof (induction es arbitrary: s)
  case Nil
  show ?case by (intro exI[of _ "[]"] exI[of _ "clock s"]) simp
next
  case (Cons e es)
  let ?r = "writeBluetoothMessage w (characteristic e) (clock s) d"
  let ?s1 = "try_write w d s e"
  from Cons.IH[of ?s1] obtain calls t where
    f: "foldl (try_write w d) ?s1 es = ?s1\<lparr>bt_calls := bt_calls ?s1 @ calls, clock := t\<rparr>"
    and m: "map (\<lambda>c. (fst c, fst (snd c))) calls = map (\<lambda>e. (characteristic e, d)) es"
    by blast
  have "foldl (try_write w d) s (e # es) = foldl (try_write w d) ?s1 es"
    by simp
  also have "\<dots> = ?s1\<lparr>bt_calls := bt_calls ?s1 @ calls, clock := t\<rparr>"
    by (rule f)
  also have "\<dots> = s\<lparr>bt_calls := bt_calls s @ ((characteristic e, d, ?r) # calls), clock := t\<rparr>"
    by (simp add: try_write_def Let_def)
  finally have a: "foldl (try_write w d) s (e # es) =
      s\<lparr>bt_calls := bt_calls s @ ((characteristic e, d, ?r) # calls), clock := t\<rparr>" .
  have b: "map (\<lambda>c. (fst c, fst (snd c))) ((characteristic e, d, ?r) # calls) =
      map (\<lambda>e. (characteristic e, d)) (e # es)"
    using m by simp
  show ?case
    by (intro exI[of _ "(characteristic e, d, ?r) # calls"] exI[of _ t] conjI a b)
qed

lemma send_to_all_calls:
  "\<exists>calls t. send_to_all w dd bd s =
       s\<lparr>send_calls := send_calls s @
            map (\<lambda>e. (conn_id (connection e), dd, send_throws w (conn_id (connection e))))
              (map snd (connections s)),
         bt_calls := bt_calls s @ calls, clock := t\<rparr>
     \<and> map (\<lambda>c. (fst c, fst (snd c))) calls =
         map (\<lambda>e. (characteristic e, bd)) (map snd (bluetoothConnections s))"
proof -
  let ?s1 = "foldl (try_send w dd) s (map snd (connections s))"
  from foldl_try_write[of w bd ?s1 "map snd (bluetoothConnections s)"] obtain calls t where
    f: "foldl (try_write w bd) ?s1 (map snd (bluetoothConnections s)) =
          ?s1\<lparr>bt_calls := bt_calls ?s1 @ calls, clock := t\<rparr>"
    and m: "map (\<lambda>c. (fst c, fst (snd c))) calls =
          map (\<lambda>e. (characteristic e, bd)) (map snd (bluetoothConnections s))"
    by blast
  have "send_to_all w dd bd s =
       s\<lparr>send_calls := send_calls s @
            map (\<lambda>e. (conn_id (connection e), dd, send_throws w (conn_id (connection e))))
              (map snd (connections s)),
         bt_calls := bt_calls s @ calls, clock := t\<rparr>"
    unfolding send_to_all_def f by (simp add: foldl_try_send)
  with m show ?thesis by blast
qed



section \<open>The registries against the transport events\<close>










section \<open>The quality probe removes the failing connection only\<close>

lemma probe_bluetooth: "bluetoothConnections (probe w s e) = bluetoothConnections s"
  by (cases e) (simp add: probe_def)

lemma probe_connections:
  "connections (probe w s e) =
     (if conn_open w (conn_id (connection (snd e))) \<and> send_throws w (conn_id (connection (snd e)))
      then map_delete (fst e) (connections s) else connections s)"
  by (cases e) (simp add: probe_def)

lemma foldl_probe_bluetooth:
  "bluetoothConnections (foldl (probe w) s es) = bluetoothConnections s"
  by (induction es arbitrary: s) (simp_all add: probe_bluetooth)

lemma foldl_probe_connections:
  "connections (foldl (probe w) s es) =
     filter (\<lambda>x. fst x \<notin> fst ` {e \<in> set es. conn_open w (conn_id (connection (snd e)))
                                          \<and> send_throws w (conn_id (connection (snd e)))})
       (connections s)"
proof (induction es arbitrary: s)
  case Nil
  show ?case by simp
next
  case (Cons e es)
  let ?bad = "\<lambda>e. conn_open w (conn_id (connection (snd e))) \<and> send_throws w (conn_id (connection (snd e)))"
  have step: "connections (foldl (probe w) s (e # es)) =
      filter (\<lambda>x. fst x \<notin> fst ` {e \<in> set es. ?bad e}) (connections (probe w s e))"
    using Cons.IH[of "probe w s e"] by simp
  show ?case
  proof (cases "?bad e")
    case True
    then have pc: "connections (probe w s e) = map_delete (fst e) (connections s)"
      by (simp add: probe_connections)
    from True have "{x \<in> set (e # es). ?bad x} = insert e {x \<in> set es. ?bad x}" by auto
    then have img: "fst ` {x \<in> set (e # es). ?bad x} = insert (fst e) (fst ` {x \<in> set es. ?bad x})"
      by simp
    show ?thesis unfolding step pc img
      by (simp add: map_delete_def conj_commute)
  next
    case False
    then have pc: "connections (probe w s e) = connections s"
      by (auto simp: probe_connections)
    from False have img: "{x \<in> set (e # es). ?bad x} = {x \<in> set es. ?bad x}" by auto
    show ?thesis unfolding step pc img ..
  qed
qed

text \<open>
  C4: in one run of the probe, when the entry of peer \<open>p\<close> is open and its ping throws,
  and no other entry of the direct registry has an open connection whose ping throws,
  the direct registry afterwards is the one before without the key \<open>p\<close>: every other
  key maps to what it mapped to, in the same order; the Bluetooth registry is the same.
\<close>

theorem C4_probe_removes_exactly_the_failing:
  assumes entry: "map_get (connections s) p = Some e"
    and opened: "conn_open w (conn_id (connection e))"
    and throws: "send_throws w (conn_id (connection e))"
    and others: "\<forall>x \<in> set (connections s). fst x \<noteq> p \<longrightarrow>
                   \<not> (conn_open w (conn_id (connection (snd x))) \<and> send_throws w (conn_id (connection (snd x))))"
  shows "connections (quality_check w s) = map_delete p (connections s)
    \<and> map_get (connections (quality_check w s)) p = None
    \<and> (\<forall>k. k \<noteq> p \<longrightarrow> map_get (connections (quality_check w s)) k = map_get (connections s) k)
    \<and> bluetoothConnections (quality_check w s) = bluetoothConnections s"
proof -
  let ?bad = "\<lambda>e. conn_open w (conn_id (connection (snd e))) \<and> send_throws w (conn_id (connection (snd e)))"
  have mem: "(p, e) \<in> set (connections s)"
    using entry by (simp add: map_get_def map_of_SomeD)
  have "fst ` {x \<in> set (connections s). ?bad x} = {p}"
  proof
    show "fst ` {x \<in> set (connections s). ?bad x} \<subseteq> {p}"
      using others by auto
    show "{p} \<subseteq> fst ` {x \<in> set (connections s). ?bad x}"
      using mem opened throws by force
  qed
  then have c: "connections (quality_check w s) = map_delete p (connections s)"
    by (simp add: quality_check_def foldl_probe_connections map_delete_def)
  have b: "bluetoothConnections (quality_check w s) = bluetoothConnections s"
    by (simp add: quality_check_def foldl_probe_bluetooth)
  show ?thesis unfolding c using b by (simp add: map_get_map_delete)
qed

theorem C4_probe_removes_exactly_the_failing_witness:
  "map_get (connections busy) ''peer-a'' =
       Some \<lparr>connection = \<lparr>conn_id = 1, peer = ''peer-a'', metadata = JUndefined\<rparr>,
             ctype = ''webrtc'', cmetadata = JUndefined\<rparr>
   \<and> conn_open stormy 1 \<and> send_throws stormy 1 \<and> \<not> send_throws stormy 2
   \<and> map fst (connections (quality_check stormy busy)) = [''peer-b'']
   \<and> map_get (connections (quality_check stormy busy)) ''peer-b'' = map_get (connections busy) ''peer-b''
   \<and> bluetoothConnections (quality_check stormy busy) = bluetoothConnections busy"
proof -
  let ?e = "\<lparr>connection = \<lparr>conn_id = 1, peer = ''peer-a'', metadata = JUndefined\<rparr>,
             ctype = ''webrtc'', cmetadata = JUndefined\<rparr>"
  have a: "map_get (connections busy) ''peer-a'' = Some ?e"
    by (simp add: busy_def map_get_def)
  have b: "conn_open stormy (conn_id (connection ?e))" "send_throws stormy (conn_id (connection ?e))"
    by (simp_all add: stormy_def calm_def)
  have c: "\<forall>x \<in> set (connections busy). fst x \<noteq> ''peer-a'' \<longrightarrow>
      \<not> (conn_open stormy (conn_id (connection (snd x))) \<and> send_throws stormy (conn_id (connection (snd x))))"
    by (simp add: busy_def stormy_def calm_def)
  have d: "\<not> send_throws stormy 2" by (simp add: stormy_def calm_def)
  from C4_probe_removes_exactly_the_failing[OF a b c]
  have r: "connections (quality_check stormy busy) = map_delete ''peer-a'' (connections busy)"
    and k: "\<forall>k. k \<noteq> ''peer-a'' \<longrightarrow>
        map_get (connections (quality_check stormy busy)) k = map_get (connections busy) k"
    and bt: "bluetoothConnections (quality_check stormy busy) = bluetoothConnections busy"
    by blast+
  have r1: "map fst (connections (quality_check stormy busy)) = [''peer-b'']"
    unfolding r by (simp add: busy_def map_delete_def)
  have r2: "map_get (connections (quality_check stormy busy)) ''peer-b'' = map_get (connections busy) ''peer-b''"
    using k by simp
  show ?thesis using a b d r1 r2 bt by simp
qed

section \<open>Operations without a connection\<close>




section \<open>An emergency alert without a position\<close>

text \<open>
  C6: when the browser has no geolocation or refuses the position, and at least one
  connection is registered, the emergency message carries
  \<open>location = {latitude: null, longitude: null, accuracy: null}\<close>, the operation
  returns, the message was handed to every direct and every Bluetooth connection, in
  registry order and whichever calls failed, it is displayed, and the toast reports
  the count.
\<close>

theorem C6_alert_without_position:
  assumes denied: "geolocation w = NoGeolocation \<or> geolocation w = PositionError"
    and linked: "0 < getTotalConnections s"
  shows "get_prop (emergencyData w s) ''location'' =
        JObj [(''latitude'', JNull), (''longitude'', JNull), (''accuracy'', JNull)]
    \<and> (\<exists>s' calls. sendEmergencyAlert w s = Returned s'
        \<and> send_calls s' = send_calls s @
             map (\<lambda>e. (conn_id (connection e), emergencyData w s, send_throws w (conn_id (connection e))))
               (map snd (connections s))
        \<and> bt_calls s' = bt_calls s @ calls
        \<and> map (\<lambda>c. (fst c, fst (snd c))) calls =
             map (\<lambda>e. (characteristic e, emergencyData w s)) (map snd (bluetoothConnections s))
        \<and> length (send_calls s') - length (send_calls s) + length calls = getTotalConnections s
        \<and> messages s' = messages s @ [AlertBubble (emergencyData w s) True]
        \<and> last (toasts s') =
             (''Emergency alert sent to '' @ show_nat (getTotalConnections s) @ '' device(s)'', ''warning''))"
proof -
  let ?d = "emergencyData w s"
  let ?s0 = "s\<lparr>clock := clock s + location_wait w\<rparr>"
  have loc: "get_prop ?d ''location'' =
        JObj [(''latitude'', JNull), (''longitude'', JNull), (''accuracy'', JNull)]"
    using denied by (auto simp: emergencyData_def getCurrentLocation_def null_location_def)
  from send_to_all_calls[of w ?d ?d ?s0] obtain calls t where
    f: "send_to_all w ?d ?d ?s0 =
       ?s0\<lparr>send_calls := send_calls ?s0 @
            map (\<lambda>e. (conn_id (connection e), ?d, send_throws w (conn_id (connection e))))
              (map snd (connections ?s0)),
         bt_calls := bt_calls ?s0 @ calls, clock := t\<rparr>"
    and m: "map (\<lambda>c. (fst c, fst (snd c))) calls =
         map (\<lambda>e. (characteristic e, ?d)) (map snd (bluetoothConnections ?s0))"
    by blast
  have len: "length calls = length (bluetoothConnections s)"
    using arg_cong[OF m, of length] by simp
  have r: "sendEmergencyAlert w s = Returned
      (showToast (''Emergency alert sent to '' @ show_nat (getTotalConnections s) @ '' device(s)'') ''warning''
        (displayEmergencyAlert ?d True (send_to_all w ?d ?d ?s0)))"
    using linked by (simp add: sendEmergencyAlert_def Let_def)
  have m': "map (\<lambda>c. (fst c, fst (snd c))) calls =
         map (\<lambda>e. (characteristic e, ?d)) (map snd (bluetoothConnections s))"
    using m by simp
  have "\<exists>s' calls. sendEmergencyAlert w s = Returned s'
        \<and> send_calls s' = send_calls s @
             map (\<lambda>e. (conn_id (connection e), ?d, send_throws w (conn_id (connection e))))
               (map snd (connections s))
        \<and> bt_calls s' = bt_calls s @ calls
        \<and> map (\<lambda>c. (fst c, fst (snd c))) calls =
             map (\<lambda>e. (characteristic e, ?d)) (map snd (bluetoothConnections s))
        \<and> length (send_calls s') - length (send_calls s) + length calls = getTotalConnections s
        \<and> messages s' = messages s @ [AlertBubble ?d True]
        \<and> last (toasts s') =
             (''Emergency alert sent to '' @ show_nat (getTotalConnections s) @ '' device(s)'', ''warning'')"
    unfolding r f using m' len
    by (simp add: showToast_def displayEmergencyAlert_def getTotalConnections_def map_size_def)
  with loc show ?thesis by (rule conjI)
qed

theorem C6_alert_without_position_witness:
  "geolocation stormy = PositionError \<and> 0 < getTotalConnections busy
   \<and> get_prop (emergencyData stormy busy) ''location'' =
        JObj [(''latitude'', JNull), (''longitude'', JNull), (''accuracy'', JNull)]
   \<and> (\<exists>s'. sendEmergencyAlert stormy busy = Returned s'
        \<and> map (\<lambda>c. (fst c, snd (snd c))) (send_calls s') = [(1, True), (2, False)]
        \<and> map fst (bt_calls s') = [''far'', ''msg'']
        \<and> messages s' = [AlertBubble (emergencyData stormy busy) True]
        \<and> last (toasts s') = (''Emergency alert sent to 4 device(s)'', ''warning''))"
proof -
  have g: "geolocation stormy = PositionError" by (simp add: stormy_def calm_def)
  then have g': "geolocation stormy = NoGeolocation \<or> geolocation stormy = PositionError" by simp
  have n: "getTotalConnections busy = 4"
    by (simp add: busy_def getTotalConnections_def map_size_def)
  have n0: "0 < getTotalConnections busy" using n by simp
  have w: "send_throws stormy 1" "\<not> send_throws stormy 2"
    by (simp_all add: stormy_def calm_def)
  note th = C6_alert_without_position[of stormy busy, OF g' n0]
  from th have loc: "get_prop (emergencyData stormy busy) ''location'' =
        JObj [(''latitude'', JNull), (''longitude'', JNull), (''accuracy'', JNull)]"
    by (rule conjunct1)
  from th obtain s' calls where
    r: "sendEmergencyAlert stormy busy = Returned s'"
    and sc: "send_calls s' = send_calls busy @
         map (\<lambda>e. (conn_id (connection e), emergencyData stormy busy,
                    send_throws stormy (conn_id (connection e))))
           (map snd (connections busy))"
    and bc: "bt_calls s' = bt_calls busy @ calls"
    and m: "map (\<lambda>c. (fst c, fst (snd c))) calls =
         map (\<lambda>e. (characteristic e, emergencyData stormy busy)) (map snd (bluetoothConnections busy))"
    and ms: "messages s' = messages busy @ [AlertBubble (emergencyData stormy busy) True]"
    and l: "last (toasts s') =
         (''Emergency alert sent to '' @ show_nat (getTotalConnections busy) @ '' device(s)'', ''warning'')"
    by blast
  have a: "map (\<lambda>c. (fst c, snd (snd c))) (send_calls s') = [(1, True), (2, False)]"
    unfolding sc using w by (simp add: busy_def)
  have "map fst (map (\<lambda>c. (fst c, fst (snd c))) calls) = [''far'', ''msg'']"
    unfolding m by (simp add: busy_def)
  then have "map fst calls = [''far'', ''msg'']" by (simp add: comp_def)
  then have b: "map fst (bt_calls s') = [''far'', ''msg'']" using bc by (simp add: busy_def)
  have c: "messages s' = [AlertBubble (emergencyData stormy busy) True]"
    using ms by (simp add: busy_def)
  have d: "last (toasts s') = (''Emergency alert sent to 4 device(s)'', ''warning'')"
    using l n by (simp add: show_nat.simps[of 4])
  have "\<exists>s'. sendEmergencyAlert stormy busy = Returned s'
        \<and> map (\<lambda>c. (fst c, snd (snd c))) (send_calls s') = [(1, True), (2, False)]
        \<and> map fst (bt_calls s') = [''far'', ''msg'']
        \<and> messages s' = [AlertBubble (emergencyData stormy busy) True]
        \<and> last (toasts s') = (''Emergency alert sent to 4 device(s)'', ''warning'')"
    by (intro exI[of _ s'] conjI r a b c d)
  with g n0 loc show ?thesis by (intro conjI)
qed

section \<open>Start-up: when the discovery scans are started\<close>










section \<open>Handshakes\<close>

lemma handshake_explicit:
  "handshake s = JObj
     [(''type'', JStr ''handshake''),
      (''deviceName'', JStr (deviceName s)),
      (''timestamp'', JNum (real (clock s))),
      (''peerId'', JStr (case peer_id s of Some i \<Rightarrow> i | None \<Rightarrow> ''bluetooth-only'')),
      (''connectionType'', JStr ''webrtc'')]"
  by (simp add: handshake_def)

lemma open_send_calls:
  "send_calls (state_of (setupConnection w c isIncoming Open s)) =
     send_calls s @ [(conn_id c, handshake s, send_throws w (conn_id c))]"
  by (simp add: setupConnection_def sendHandshake_def Let_def showToast_def
        updateConnectionStatus_def handshake_def)

lemma service_bt_calls:
  "gatt w (dev_id dev) = ServiceCharacteristic ch True \<Longrightarrow>
   bt_calls (connectBluetoothDevice w dev s) =
     bt_calls s @ [(ch, bluetooth_handshake dev s,
                    writeBluetoothMessage w ch (clock s) (bluetooth_handshake dev s))]"
  by (simp add: connectBluetoothDevice_def Let_def showToast_def updateConnectionStatus_def
        bluetooth_handshake_def)

lemma generic_bt_calls:
  "bt_calls (setupGenericBluetoothConnection w dev s) = bt_calls s"
  by (simp add: setupGenericBluetoothConnection_def Let_def showToast_def
        split: gatt_setup.splits option.splits)

lemma no_service_bt_calls:
  "gatt w (dev_id dev) = NoServiceListRejected \<or> gatt w (dev_id dev) = NoServiceServices services \<Longrightarrow>
   bt_calls (connectBluetoothDevice w dev s) = bt_calls s"
  by (auto simp: connectBluetoothDevice_def Let_def generic_bt_calls showToast_def)

text \<open>
  C8, as the claim states it, fails twice. The handshake sent when a direct
  connection opens has the fields type, deviceName, timestamp, peerId and
  connectionType: no capability list. And a Bluetooth device connected through the
  generic fallback is registered without any handshake being written.
\<close>

theorem C8_handshake_counterexample:
  "map (\<lambda>c. (fst c, keys_of (fst (snd c))))
       (send_calls (state_of (setupConnection calm conn_b2 True Open alone))) =
     [(2, [''type'', ''deviceName'', ''timestamp'', ''peerId'', ''connectionType''])]
   \<and> get_prop (handshake alone) ''capabilities'' = JUndefined
   \<and> map fst (bluetoothConnections (connectBluetoothDevice generic_only radio_1 alone)) = [''dev-1'']
   \<and> bt_calls (connectBluetoothDevice generic_only radio_1 alone) = []"
proof -
  have a: "map (\<lambda>c. (fst c, keys_of (fst (snd c))))
       (send_calls (state_of (setupConnection calm conn_b2 True Open alone))) =
     [(2, [''type'', ''deviceName'', ''timestamp'', ''peerId'', ''connectionType''])]"
    by (simp add: open_send_calls handshake_def alone_def busy_def conn_b2_def)
  have b: "get_prop (handshake alone) ''capabilities'' = JUndefined"
    by (simp add: handshake_def)
  have g: "gatt generic_only (dev_id radio_1) = NoServiceServices
     [Some [\<lparr>cp_handle = ''tx'', cp_write = False, cp_writeWithoutResponse = True,
             cp_notify = False, cp_notifications_ok = False\<rparr>]]"
    by (simp add: generic_only_def calm_def)
  have c: "map fst (bluetoothConnections (connectBluetoothDevice generic_only radio_1 alone)) = [''dev-1'']"
    unfolding connect_bluetooth_registry g
    by (simp add: alone_def busy_def radio_1_def)
  have d: "bt_calls (connectBluetoothDevice generic_only radio_1 alone) = []"
    using no_service_bt_calls[of generic_only radio_1 _ alone] g
    by (simp add: alone_def busy_def)
  show ?thesis using a b c d by (intro conjI)
qed

text \<open>
  C8, amended. When a direct connection opens, incoming or outgoing, \<^verbatim>\<open>send\<close> is
  called once on it with the handshake \<open>{type: 'handshake', deviceName, timestamp,
  peerId, connectionType: 'webrtc'}\<close>, where peerId is the local peer id, or
  \<open>'bluetooth-only'\<close> without a peer. When a Bluetooth device is connected through the
  emergency service and the notifications of its message characteristic start, one
  message is written to that characteristic: \<open>{type: 'bluetooth-handshake',
  deviceName, timestamp, deviceId, capabilities: ['messaging', 'emergency',
  'file-transfer']}\<close>, where deviceId is the id of the remote device. When the
  emergency service is absent, nothing is written, whether or not the generic fallback
  registers the device.
\<close>

theorem C8_handshake_on_open:
  "send_calls (state_of (setupConnection w c isIncoming Open s)) =
     send_calls s @
       [(conn_id c,
         JObj [(''type'', JStr ''handshake''),
               (''deviceName'', JStr (deviceName s)),
               (''timestamp'', JNum (real (clock s))),
               (''peerId'', JStr (case peer_id s of Some i \<Rightarrow> i | None \<Rightarrow> ''bluetooth-only'')),
               (''connectionType'', JStr ''webrtc'')],
         send_throws w (conn_id c))]
   \<and> (gatt w (dev_id dev) = ServiceCharacteristic ch True \<longrightarrow>
        map (\<lambda>c. (fst c, fst (snd c))) (bt_calls (connectBluetoothDevice w dev s)) =
          map (\<lambda>c. (fst c, fst (snd c))) (bt_calls s) @
            [(ch,
              JObj [(''type'', JStr ''bluetooth-handshake''),
                    (''deviceName'', JStr (deviceName s)),
                    (''timestamp'', JNum (real (clock s))),
                    (''deviceId'', JStr (dev_id dev)),
                    (''capabilities'', JArr [JStr ''messaging'', JStr ''emergency'', JStr ''file-transfer''])])])
   \<and> (gatt w (dev_id dev) = NoServiceListRejected \<or> gatt w (dev_id dev) = NoServiceServices services \<longrightarrow>
        bt_calls (connectBluetoothDevice w dev s) = bt_calls s)"
proof (intro conjI impI)
  show "send_calls (state_of (setupConnection w c isIncoming Open s)) =
     send_calls s @
       [(conn_id c,
         JObj [(''type'', JStr ''handshake''),
               (''deviceName'', JStr (deviceName s)),
               (''timestamp'', JNum (real (clock s))),
               (''peerId'', JStr (case peer_id s of Some i \<Rightarrow> i | None \<Rightarrow> ''bluetooth-only'')),
               (''connectionType'', JStr ''webrtc'')],
         send_throws w (conn_id c))]"
    unfolding open_send_calls handshake_explicit ..
next
  assume "gatt w (dev_id dev) = ServiceCharacteristic ch True"
  then show "map (\<lambda>c. (fst c, fst (snd c))) (bt_calls (connectBluetoothDevice w dev s)) =
          map (\<lambda>c. (fst c, fst (snd c))) (bt_calls s) @
            [(ch,
              JObj [(''type'', JStr ''bluetooth-handshake''),
                    (''deviceName'', JStr (deviceName s)),
                    (''timestamp'', JNum (real (clock s))),
                    (''deviceId'', JStr (dev_id dev)),
                    (''capabilities'', JArr [JStr ''messaging'', JStr ''emergency'', JStr ''file-transfer''])])]"
    by (simp add: service_bt_calls bluetooth_handshake_def)
next
  assume "gatt w (dev_id dev) = NoServiceListRejected \<or> gatt w (dev_id dev) = NoServiceServices services"
  then show "bt_calls (connectBluetoothDevice w dev s) = bt_calls s"
    by (rule no_service_bt_calls)
qed

theorem C8_handshake_on_open_witness:
  "gatt calm (dev_id radio_1) = ServiceCharacteristic ''msg'' True
   \<and> send_calls (state_of (setupConnection calm conn_a3 False Open alone)) =
       [(3, JObj [(''type'', JStr ''handshake''),
                  (''deviceName'', JStr ''Emergency Device''),
                  (''timestamp'', JNum 1000),
                  (''peerId'', JStr ''emergency-a-1''),
                  (''connectionType'', JStr ''webrtc'')], False)]
   \<and> map (\<lambda>c. (fst c, fst (snd c))) (bt_calls (connectBluetoothDevice calm radio_1 alone)) =
       [(''msg'', JObj [(''type'', JStr ''bluetooth-handshake''),
                        (''deviceName'', JStr ''Emergency Device''),
                        (''timestamp'', JNum 1000),
                        (''deviceId'', JStr ''dev-1''),
                        (''capabilities'', JArr [JStr ''messaging'', JStr ''emergency'', JStr ''file-transfer''])])]
   \<and> gatt generic_only (dev_id radio_1) = NoServiceServices
        [Some [\<lparr>cp_handle = ''tx'', cp_write = False, cp_writeWithoutResponse = True,
                cp_notify = False, cp_notifications_ok = False\<rparr>]]
   \<and> bt_calls (connectBluetoothDevice generic_only radio_1 alone) = []"
proof -
  let ?svc = "[Some [\<lparr>cp_handle = ''tx'', cp_write = False, cp_writeWithoutResponse = True,
                cp_notify = False, cp_notifications_ok = False\<rparr>]]"
  have g: "gatt calm (dev_id radio_1) = ServiceCharacteristic ''msg'' True"
    by (simp add: calm_def)
  have g2: "gatt generic_only (dev_id radio_1) = NoServiceServices ?svc"
    by (simp add: generic_only_def calm_def)
  have f: "send_throws calm 3 = False" "conn_id conn_a3 = 3"
    "deviceName alone = ''Emergency Device''" "clock alone = 1000"
    "peer_id alone = Some ''emergency-a-1''" "bt_calls alone = []" "send_calls alone = []"
    "dev_id radio_1 = ''dev-1''"
    by (simp_all add: calm_def conn_a3_def alone_def busy_def radio_1_def)
  note th1 = C8_handshake_on_open[of calm conn_a3 False alone radio_1 "''msg''" ?svc]
  note th2 = C8_handshake_on_open[of generic_only conn_a3 False alone radio_1 "''msg''" ?svc]
  have a: "send_calls (state_of (setupConnection calm conn_a3 False Open alone)) =
       [(3, JObj [(''type'', JStr ''handshake''),
                  (''deviceName'', JStr ''Emergency Device''),
                  (''timestamp'', JNum 1000),
                  (''peerId'', JStr ''emergency-a-1''),
                  (''connectionType'', JStr ''webrtc'')], False)]"
    using conjunct1[OF th1] by (simp add: f)
  have b: "map (\<lambda>c. (fst c, fst (snd c))) (bt_calls (connectBluetoothDevice calm radio_1 alone)) =
       [(''msg'', JObj [(''type'', JStr ''bluetooth-handshake''),
                        (''deviceName'', JStr ''Emergency Device''),
                        (''timestamp'', JNum 1000),
                        (''deviceId'', JStr ''dev-1''),
                        (''capabilities'', JArr [JStr ''messaging'', JStr ''emergency'', JStr ''file-transfer''])])]"
    using conjunct1[OF conjunct2[OF th1]] g by (simp add: f)
  have c: "bt_calls (connectBluetoothDevice generic_only radio_1 alone) = []"
    using conjunct2[OF conjunct2[OF th2]] g2 by (simp add: f)
  show ?thesis using g a b g2 c by (intro conjI)
qed

section \<open>The persistence server: PUT /api/emergencies/:id\<close>









section \<open>A file: in full to direct connections, announced to Bluetooth ones\<close>



end
